theory Spec2Isabelle
  imports Complex_Main "HOL-Library.Word" "HOL-Library.Sublist"
begin

section \<open>Python values held by the memory store\<close>

text \<open>
  The store of \<^verbatim>\<open>src/memory/store.py\<close> keeps whatever \<^verbatim>\<open>json.load\<close> returned or
  what the application passed to \<^verbatim>\<open>store_interaction\<close>: JSON-shaped Python values.
  A \<^verbatim>\<open>dict\<close> is an association list read with \<open>map_of\<close> (the first binding of
  a key is the one a lookup sees). A \<^verbatim>\<open>float\<close> is carried as its IEEE-754 binary64
  bit pattern: the store never computes with stored floats, it only tests their truth
  value. Texts are lists of \<^typ>\<open>char\<close>, read as the code points 0 to 255.
\<close>

datatype json =
    JNull
  | JBool bool
  | JInt int
  | JFloat "64 word"
  | JStr string
  | JArr "json list"
  | JObj "(string \<times> json) list"

datatype py_error =
    AttributeError
  | TypeError
  | OSError
  | Raised string

text \<open>\<^verbatim>\<open>bool(v)\<close>: the test behind \<^verbatim>\<open>if v\<close> and \<^verbatim>\<open>not v\<close>.\<close>

fun truthy :: "json \<Rightarrow> bool" where
  "truthy JNull = False"
| "truthy (JBool b) = b"
| "truthy (JInt i) = (i \<noteq> 0)"
| "truthy (JFloat w) = (take_bit 63 w \<noteq> 0)"
| "truthy (JStr s) = (s \<noteq> [])"
| "truthy (JArr xs) = (xs \<noteq> [])"
| "truthy (JObj kvs) = (kvs \<noteq> [])"

text \<open>\<^verbatim>\<open>isinstance(v, dict)\<close>.\<close>

fun is_dict :: "json \<Rightarrow> bool" where
  "is_dict (JObj kvs) = True"
| "is_dict v = False"

text \<open>
  \<^verbatim>\<open>v.get(key, default)\<close>: only a dict has the method; on any other value the
  attribute lookup raises \<^verbatim>\<open>AttributeError\<close>. \<^verbatim>\<open>v.get(key)\<close> is the call with
  default \<^verbatim>\<open>None\<close>.
\<close>

definition dict_get :: "(string \<times> json) list \<Rightarrow> string \<Rightarrow> json \<Rightarrow> json" where
  "dict_get kvs k d = (case map_of kvs k of None \<Rightarrow> d | Some v \<Rightarrow> v)"

fun py_get :: "json \<Rightarrow> string \<Rightarrow> json \<Rightarrow> py_error + json" where
  "py_get (JObj kvs) k d = Inr (dict_get kvs k d)"
| "py_get v k d = Inl AttributeError"

section \<open>Texts: \<^verbatim>\<open>str.lower\<close> and \<^verbatim>\<open>str.split\<close>\<close>

text \<open>
  On the code points 0 to 255 \<^verbatim>\<open>str.lower()\<close> moves the 26 ASCII capitals and the
  capitals 192 to 222 other than the multiplication sign 215 up by 32 and leaves every
  other character alone; \<^verbatim>\<open>str.split()\<close> without argument cuts at the maximal runs of
  the characters for which \<^verbatim>\<open>str.isspace\<close> holds and drops empty pieces.
\<close>

definition lower_char :: "char \<Rightarrow> char" where
  "lower_char c =
     (let n = (of_char c :: nat) in
      if (65 \<le> n \<and> n \<le> 90) \<or> (192 \<le> n \<and> n \<le> 222 \<and> n \<noteq> 215)
      then char_of (n + 32) else c)"

definition lower :: "string \<Rightarrow> string" where
  "lower s = map lower_char s"

definition isspace :: "char \<Rightarrow> bool" where
  "isspace c =
     (let n = (of_char c :: nat) in
      (9 \<le> n \<and> n \<le> 13) \<or> (28 \<le> n \<and> n \<le> 32) \<or> n = 133 \<or> n = 160)"

text \<open>
  \<open>split_acc w s\<close> scans \<open>s\<close> with the characters of the current word in \<open>w\<close>
  (latest first); a word is emitted when a space or the end of the text closes it.
\<close>

fun split_acc :: "string \<Rightarrow> string \<Rightarrow> string list" where
  "split_acc w [] = (if w = [] then [] else [rev w])"
| "split_acc w (c # cs) =
     (if isspace c
      then (if w = [] then split_acc [] cs else rev w # split_acc [] cs)
      else split_acc (c # w) cs)"

definition split :: "string \<Rightarrow> string list" where
  "split s = split_acc [] s"

text \<open>\<^verbatim>\<open>set(text.lower().split())\<close>\<close>

definition tokens :: "string \<Rightarrow> string set" where
  "tokens s = set (split (lower s))"

section \<open>Similarity\<close>

text \<open>
  \<^verbatim>\<open>_simple_similarity(text1, text2)\<close>, lines 89 to 103. The quotient
  \<^verbatim>\<open>intersection / union\<close> of two Python integers is the correctly rounded binary64
  value of the exact quotient; the model keeps the exact quotient as a rational. Rounding
  is monotone and \<^verbatim>\<open>0.3\<close> is the rounding of 3/10, so the comparison with
  \<^verbatim>\<open>0.3\<close> and the order of two scores are those of the exact quotients as long as a
  union has fewer than \<open>10\<^sup>7\<close> tokens.
  \<^verbatim>\<open>text.lower()\<close> exists on a \<^verbatim>\<open>str\<close> only; the two falsy tests come first.
\<close>

definition jaccard :: "string set \<Rightarrow> string set \<Rightarrow> rat" where
  "jaccard words1 words2 =
     (let intersection = card (words1 \<inter> words2);
          union = card (words1 \<union> words2)
      in if union > 0 then of_nat intersection / of_nat union else 0)"

fun simple_similarity :: "json \<Rightarrow> json \<Rightarrow> py_error + rat" where
  "simple_similarity text1 text2 =
     (if \<not> truthy text1 \<or> \<not> truthy text2 then Inr 0
      else case text1 of
        JStr s1 \<Rightarrow>
          (case text2 of
             JStr s2 \<Rightarrow>
               (let words1 = tokens s1; words2 = tokens s2
                in if words1 = {} \<or> words2 = {} then Inr 0
                   else Inr (jaccard words1 words2))
           | _ \<Rightarrow> Inl AttributeError)
      | _ \<Rightarrow> Inl AttributeError)"

section \<open>Retrieval\<close>

text \<open>
  The loop of \<^verbatim>\<open>get_similar_problems\<close>, lines 76 to 84, with the list
  \<^verbatim>\<open>similar\<close> as accumulator. \<^verbatim>\<open>memory.get\<close> raises on a record that is not a
  dict; \<^verbatim>\<open>parsed and isinstance(parsed, dict)\<close> short-circuits on a falsy value.
\<close>

fun scan_memories :: "json \<Rightarrow> json list \<Rightarrow> (json \<times> rat) list \<Rightarrow> py_error + (json \<times> rat) list" where
  "scan_memories problem_text [] similar = Inr similar"
| "scan_memories problem_text (memory # rest) similar =
     (case py_get memory ''parsed_problem'' JNull of
        Inl e \<Rightarrow> Inl e
      | Inr parsed \<Rightarrow>
          if truthy parsed \<and> is_dict parsed then
            (case py_get parsed ''problem_text'' (JStr '''') of
               Inl e \<Rightarrow> Inl e
             | Inr stored_text \<Rightarrow>
                 if truthy stored_text then
                   (case simple_similarity problem_text stored_text of
                      Inl e \<Rightarrow> Inl e
                    | Inr similarity \<Rightarrow>
                        if similarity > 3 / 10
                        then scan_memories problem_text rest (similar @ [(memory, similarity)])
                        else scan_memories problem_text rest similar)
                 else scan_memories problem_text rest similar)
          else scan_memories problem_text rest similar)"

text \<open>
  \<^verbatim>\<open>similar.sort(key=lambda x: x[1], reverse=True)\<close>: \<^verbatim>\<open>list.sort\<close> is stable, and
  with \<^verbatim>\<open>reverse=True\<close> it reverses the list, sorts it ascending with the stable sort
  and reverses the outcome, which keeps elements with equal keys in their original order.
\<close>

definition sort_reverse :: "('a \<Rightarrow> rat) \<Rightarrow> 'a list \<Rightarrow> 'a list" where
  "sort_reverse key xs = rev (sort_key key (rev xs))"

text \<open>
  The slice \<^verbatim>\<open>xs[:limit]\<close>: a negative bound counts from the end of the list.
\<close>

definition slice_to :: "int \<Rightarrow> 'a list \<Rightarrow> 'a list" where
  "slice_to limit xs =
     (if 0 \<le> limit then take (nat limit) xs
      else take (length xs - nat (- limit)) xs)"

text \<open>
  \<^verbatim>\<open>for memory in self.memories\<close>: a list yields its elements; a dict yields its keys
  and a string its characters, all of them strings; any other value is not iterable.
\<close>

fun iterate :: "json \<Rightarrow> py_error + json list" where
  "iterate (JArr xs) = Inr xs"
| "iterate (JObj kvs) = Inr (map (\<lambda>kv. JStr (fst kv)) kvs)"
| "iterate (JStr s) = Inr (map (\<lambda>c. JStr [c]) s)"
| "iterate v = Inl TypeError"

definition get_similar_problems :: "json \<Rightarrow> json \<Rightarrow> int \<Rightarrow> py_error + json list" where
  "get_similar_problems memories problem_text limit =
     (if \<not> truthy memories then Inr []
      else case iterate memories of
        Inl e \<Rightarrow> Inl e
      | Inr ms \<Rightarrow>
          (case scan_memories problem_text ms [] of
             Inl e \<Rightarrow> Inl e
           | Inr similar \<Rightarrow> Inr (map fst (slice_to limit (sort_reverse snd similar)))))"

section \<open>The store and its backing file\<close>

text \<open>
  The state is the attribute \<^verbatim>\<open>self.memories\<close> and the file at
  \<^verbatim>\<open>self.storage_path\<close>. \<^verbatim>\<open>json.dump\<close> and \<^verbatim>\<open>json.load\<close> belong to the Python
  standard library: they are the parameters \<open>dumps\<close> (value to file text) and
  \<open>loads\<close> (file text to value, \<open>None\<close> for \<^verbatim>\<open>JSONDecodeError\<close>), and the type
  \<open>'t\<close> of file texts is left open. What the operating system does to a write is an
  input of the model as well.
\<close>

datatype 't file_state =
    Missing
  | Unreadable
  | Content 't

datatype 't write_outcome =
    WriteOk
  | MkdirFails
  | OpenFails
  | DumpFails 't

record 't store =
  memories :: json
  backing :: "'t file_state"

text \<open>The lines the store prints.\<close>

datatype log_msg =
    Loaded nat
  | CorruptedFile
  | ErrorLoading
  | NoMemoryFile
  | Saved nat
  | ErrorSaving
  | StoredMemory string
  | FailedToStore
  | AllCleared

text \<open>
  \<^verbatim>\<open>len(v)\<close>: lists, dicts and strings have a length, every other JSON value raises
  \<^verbatim>\<open>TypeError\<close>. (A list that stands for a dict has one binding per key.)
\<close>

fun py_len :: "json \<Rightarrow> py_error + nat" where
  "py_len (JArr xs) = Inr (length xs)"
| "py_len (JObj kvs) = Inr (length kvs)"
| "py_len (JStr s) = Inr (length s)"
| "py_len v = Inl TypeError"

text \<open>
  \<^verbatim>\<open>load_memories\<close>, lines 13 to 29. \<open>Unreadable\<close> is a file that exists and whose
  \<^verbatim>\<open>open\<close> or \<^verbatim>\<open>read\<close> raises. The \<^verbatim>\<open>print\<close> of line 19 evaluates
  \<^verbatim>\<open>len(data)\<close> inside the \<^verbatim>\<open>try\<close>, before \<^verbatim>\<open>return data\<close>.
\<close>

definition load_memories :: "('t \<Rightarrow> json option) \<Rightarrow> 't store \<Rightarrow> json \<times> log_msg list" where
  "load_memories loads st =
     (case backing st of
        Missing \<Rightarrow> (JArr [], [NoMemoryFile])
      | Unreadable \<Rightarrow> (JArr [], [ErrorLoading])
      | Content t \<Rightarrow>
          (case loads t of
             None \<Rightarrow> (JArr [], [CorruptedFile])
           | Some data \<Rightarrow>
               (case py_len data of
                  Inl e \<Rightarrow> (JArr [], [ErrorLoading])
                | Inr n \<Rightarrow> (data, [Loaded n]))))"

text \<open>
  \<^verbatim>\<open>save_memories\<close>, lines 31 to 45. \<^verbatim>\<open>open(path, 'w')\<close> truncates the file, so a
  \<^verbatim>\<open>json.dump\<close> that raises leaves the text written so far (\<open>DumpFails\<close> carries
  it). The \<^verbatim>\<open>print\<close> of line 41 is inside the \<^verbatim>\<open>try\<close>, after the file is closed.
\<close>

definition save_memories :: "(json \<Rightarrow> 't) \<Rightarrow> 't write_outcome \<Rightarrow> 't store \<Rightarrow> bool \<times> log_msg list \<times> 't store" where
  "save_memories dumps outcome st =
     (case outcome of
        MkdirFails \<Rightarrow> (False, [ErrorSaving], st)
      | OpenFails \<Rightarrow> (False, [ErrorSaving], st)
      | DumpFails partial \<Rightarrow> (False, [ErrorSaving], st\<lparr>backing := Content partial\<rparr>)
      | WriteOk \<Rightarrow>
          (let st' = st\<lparr>backing := Content (dumps (memories st))\<rparr>
           in case py_len (memories st) of
                Inl e \<Rightarrow> (False, [ErrorSaving], st')
              | Inr n \<Rightarrow> (True, [Saved n], st')))"

text \<open>
  What one call of \<^verbatim>\<open>store_interaction\<close> draws from outside: the string of
  \<^verbatim>\<open>uuid.uuid4()\<close>, the string of \<^verbatim>\<open>datetime.now().isoformat()\<close> and the fate of
  the write.
\<close>

record 't effects =
  new_uuid :: string
  now_iso :: string
  disk :: "'t write_outcome"

text \<open>The dict built in lines 49 to 59; \<open>data\<close> is the dict the caller passes.\<close>

definition new_memory :: "string \<Rightarrow> string \<Rightarrow> (string \<times> json) list \<Rightarrow> json" where
  "new_memory uid ts data =
     JObj [(''id'', JStr uid),
           (''timestamp'', JStr ts),
           (''original_input'', dict_get data ''original_input'' JNull),
           (''input_type'', dict_get data ''input_type'' JNull),
           (''parsed_problem'', dict_get data ''parsed_problem'' JNull),
           (''solution'', dict_get data ''solution'' JNull),
           (''verification'', dict_get data ''verification'' JNull),
           (''feedback'', dict_get data ''feedback'' JNull),
           (''user_comment'', dict_get data ''user_comment'' (JStr ''''))]"

text \<open>
  \<^verbatim>\<open>store_interaction\<close>, lines 47 to 69. Only a list has \<^verbatim>\<open>append\<close>; the value
  returned is \<^verbatim>\<open>memory["id"]\<close> on both branches of \<^verbatim>\<open>if success\<close>.
\<close>

definition store_interaction ::
  "(json \<Rightarrow> 't) \<Rightarrow> 't effects \<Rightarrow> (string \<times> json) list \<Rightarrow> 't store
     \<Rightarrow> py_error + (string \<times> log_msg list \<times> 't store)" where
  "store_interaction dumps fx data st =
     (let memory = new_memory (new_uuid fx) (now_iso fx) data
      in case memories st of
           JArr ms \<Rightarrow>
             (case save_memories dumps (disk fx) (st\<lparr>memories := JArr (ms @ [memory])\<rparr>) of
                (success, msgs, st') \<Rightarrow>
                  Inr (new_uuid fx,
                       msgs @ [if success then StoredMemory (new_uuid fx) else FailedToStore],
                       st'))
         | _ \<Rightarrow> Inl AttributeError)"


section \<open>The solve button of \<^verbatim>\<open>src/app.py\<close>\<close>

text \<open>
  The body of \<^verbatim>\<open>if st.button("Solve Problem")\<close>, lines 302 to 414: one \<^verbatim>\<open>try\<close> with
  the four agent calls in a row, the feedback buttons after them, and one
  \<^verbatim>\<open>except Exception\<close> that shows the exception. The agents are not part of the
  sources at hand; they are the parameters \<open>parser\<close>, \<open>solver\<close>, \<open>verifier\<close> and
  \<open>explainer\<close>, each returning a value or the exception it raises. The Streamlit
  statements between two agent calls only read values computed before; whether such a
  block raises is the parameter \<open>display\<close>, applied to what the block reads.
\<close>

datatype stage = Parse | Solve | Verify | Explain



text \<open>
  What the page shows: the step headers written before each agent call, the
  \<^verbatim>\<open>st.error\<close> and \<^verbatim>\<open>st.exception\<close> of the handler (both built from the exception
  alone) and the \<^verbatim>\<open>st.success\<close> with the first eight characters of a new id.
\<close>

datatype ui_event =
    StepHeader stage
  | ErrorBox py_error
  | ExceptionBox py_error
  | FeedbackSaved string

text \<open>An agent call that was made, with what it returned or raised.\<close>

datatype call = Call stage "py_error + json"

record 't app =
  store :: "'t store"
  calls :: "call list"
  ui :: "ui_event list"
  show_feedback_form :: bool





text \<open>The dict literal of lines 383 to 390, and of lines 400 to 408 without its last key.\<close>

definition feedback_data :: "string \<Rightarrow> string \<Rightarrow> json \<Rightarrow> json \<Rightarrow> json \<Rightarrow> string \<Rightarrow> (string \<times> json) list" where
  "feedback_data raw_input input_type parsed sol verification fb =
     [(''original_input'', JStr raw_input),
      (''input_type'', JStr input_type),
      (''parsed_problem'', parsed),
      (''solution'', sol),
      (''verification'', verification),
      (''feedback'', JStr fb)]"







section \<open>Notions the properties are stated with\<close>

text \<open>
  The score as the specification words it: the Jaccard index of the two sets of lowercase
  whitespace-delimited tokens, and 0 when one of the sets is empty.
\<close>

definition jaccard_index :: "string \<Rightarrow> string \<Rightarrow> rat" where
  "jaccard_index a b =
     (if tokens a = {} \<or> tokens b = {} then 0
      else of_nat (card (tokens a \<inter> tokens b)) / of_nat (card (tokens a \<union> tokens b)))"

text \<open>The text at \<^verbatim>\<open>parsed_problem.problem_text\<close> of a stored record, when there is one.\<close>

definition problem_text_of :: "json \<Rightarrow> string option" where
  "problem_text_of m =
     (case m of
        JObj kvs \<Rightarrow>
          (case map_of kvs ''parsed_problem'' of
             Some (JObj p) \<Rightarrow>
               (case map_of p ''problem_text'' of Some (JStr t) \<Rightarrow> Some t | _ \<Rightarrow> None)
           | _ \<Rightarrow> None)
      | _ \<Rightarrow> None)"

text \<open>The score of a stored record against a query text; 0 for a record without text.\<close>

definition score_of :: "string \<Rightarrow> json \<Rightarrow> rat" where
  "score_of q m = (case problem_text_of m of Some t \<Rightarrow> jaccard_index q t | None \<Rightarrow> 0)"

text \<open>
  A record the retrieval can read: a dict whose \<^verbatim>\<open>parsed_problem\<close>, when it is a dict,
  holds under \<^verbatim>\<open>problem_text\<close> a string or a falsy value (or nothing).
\<close>

definition readable_record :: "json \<Rightarrow> bool" where
  "readable_record m =
     (case m of
        JObj kvs \<Rightarrow>
          (case map_of kvs ''parsed_problem'' of
             Some (JObj p) \<Rightarrow>
               (case map_of p ''problem_text'' of
                  None \<Rightarrow> True
                | Some (JStr t) \<Rightarrow> True
                | Some v \<Rightarrow> \<not> truthy v)
           | _ \<Rightarrow> True)
      | _ \<Rightarrow> False)"

text \<open>
  A record without a usable problem text: a dict whose \<^verbatim>\<open>parsed_problem\<close> is missing
  or is not a dict, or whose \<^verbatim>\<open>parsed_problem.problem_text\<close> is absent or empty (falsy).
\<close>

definition lacks_problem_text :: "json \<Rightarrow> bool" where
  "lacks_problem_text m =
     (case m of
        JObj kvs \<Rightarrow>
          (case map_of kvs ''parsed_problem'' of
             None \<Rightarrow> True
           | Some (JObj p) \<Rightarrow>
               (case map_of p ''problem_text'' of None \<Rightarrow> True | Some v \<Rightarrow> \<not> truthy v)
           | Some v \<Rightarrow> True)
      | _ \<Rightarrow> False)"

text \<open>
  What the loop of \<^verbatim>\<open>get_similar_problems\<close> collects from readable records for a
  query text: the records scoring above 3/10, in stored order, each with its score.
\<close>

definition candidates :: "string \<Rightarrow> json list \<Rightarrow> (json \<times> rat) list" where
  "candidates q ms = map (\<lambda>m. (m, score_of q m)) (filter (\<lambda>m. 3 / 10 < score_of q m) ms)"

section \<open>Sample data\<close>

text \<open>
  A record as \<^verbatim>\<open>store_interaction\<close> builds it from the dict the "Correct" button
  passes, for a problem text that the parser returned unchanged.
\<close>

definition sample_data :: "string \<Rightarrow> (string \<times> json) list" where
  "sample_data t =
     feedback_data t ''text''
       (JObj [(''problem_text'', JStr t), (''topic'', JStr ''algebra'')])
       (JStr ''x = 2'')
       (JObj [(''is_correct'', JBool True), (''confidence'', JFloat 0x3FECCCCCCCCCCCCD),
              (''issues'', JArr [])])
       ''correct''"

definition sample_record :: "string \<Rightarrow> string \<Rightarrow> json" where
  "sample_record uid t = new_memory uid ''2025-01-01T10:00:00'' (sample_data t)"

definition sample_memories :: "json list" where
  "sample_memories =
     [sample_record ''id-1'' ''solve x squared minus 4x plus 4'',
      sample_record ''id-2'' ''integrate cosine'',
      sample_record ''id-3'' ''solve x squared plus 4'',
      sample_record ''id-4'' ''Solve  X squared minus 4x plus 4'']"

text \<open>Records without a usable problem text.\<close>

definition no_parsed_record :: json where
  "no_parsed_record = JObj [(''id'', JStr ''id-5''), (''solution'', JStr ''x = 2'')]"

definition text_parsed_record :: json where
  "text_parsed_record = JObj [(''id'', JStr ''id-6''), (''parsed_problem'', JStr ''solve x'')]"

definition empty_text_record :: json where
  "empty_text_record =
     JObj [(''id'', JStr ''id-7''),
           (''parsed_problem'', JObj [(''problem_text'', JStr ''''), (''topic'', JStr ''algebra'')])]"

text \<open>
  For the examples a file text is represented by what \<^verbatim>\<open>json.load\<close> reads from it:
  \<open>Some v\<close> for a text that parses to \<open>v\<close>, \<open>None\<close> for a text that does not parse.
\<close>

type_synonym doc = "json option"

definition write_doc :: "json \<Rightarrow> doc" where
  "write_doc v = Some v"

definition read_doc :: "doc \<Rightarrow> json option" where
  "read_doc t = t"

definition sample_store :: "doc store" where
  "sample_store = \<lparr>memories = JArr sample_memories, backing = Content (Some (JArr sample_memories))\<rparr>"

definition sample_fx :: "string \<Rightarrow> doc write_outcome \<Rightarrow> doc effects" where
  "sample_fx uid outcome = \<lparr>new_uuid = uid, now_iso = ''2025-01-02T09:30:00'', disk = outcome\<rparr>"





definition empty_store :: "doc store" where
  "empty_store = \<lparr>memories = JArr [], backing = Missing\<rparr>"

section \<open>Notions for the solve button\<close>








section \<open>Similarity and retrieval\<close>

lemma tokens_Nil: "tokens [] = {}"
  by (simp add: tokens_def lower_def split_def)

lemma simple_similarity_str:
  "simple_similarity (JStr a) (JStr b) = Inr (jaccard_index a b)"
proof -
  have u: "tokens a \<noteq> {} \<Longrightarrow> 0 < card (tokens a \<union> tokens b)"
    by (simp add: tokens_def card_gt_0_iff)
  show ?thesis
    using tokens_Nil u by (auto simp: jaccard_index_def jaccard_def Let_def)
qed

lemma simple_similarity_falsy:
  "\<not> truthy t2 \<Longrightarrow> simple_similarity t1 t2 = Inr 0"
  by simp

declare simple_similarity.simps [simp del]

lemma jaccard_index_Nil: "jaccard_index q [] = 0"
  by (simp add: jaccard_index_def tokens_Nil)

lemma scan_readable_step:
  assumes "readable_record m"
  shows "scan_memories (JStr q) (m # rest) acc =
         scan_memories (JStr q) rest
           (if 3 / 10 < score_of q m then acc @ [(m, score_of q m)] else acc)"
proof -
  from assms obtain kvs where m: "m = JObj kvs"
    by (cases m) (auto simp: readable_record_def)
  show ?thesis
  proof (cases "map_of kvs ''parsed_problem''")
    case None
    then show ?thesis
      by (simp add: m dict_get_def score_of_def problem_text_of_def)
  next
    case (Some parsed)
    show ?thesis
    proof (cases parsed)
      case (JObj p)
      show ?thesis
      proof (cases "map_of p ''problem_text''")
        case None
        with Some JObj show ?thesis
          by (simp add: m dict_get_def score_of_def problem_text_of_def)
      next
        case (Some v)
        with assms \<open>map_of kvs ''parsed_problem'' = Some parsed\<close> JObj
        have "(\<exists>t. v = JStr t) \<or> \<not> truthy v"
          by (cases v) (auto simp: readable_record_def m)
        then show ?thesis
        proof
          assume "\<exists>t. v = JStr t"
          then obtain t where "v = JStr t" ..
          with Some \<open>map_of kvs ''parsed_problem'' = Some parsed\<close> JObj show ?thesis
            by (auto simp: m dict_get_def score_of_def problem_text_of_def
                  simple_similarity_str jaccard_index_Nil)
        next
          assume "\<not> truthy v"
          with Some \<open>map_of kvs ''parsed_problem'' = Some parsed\<close> JObj show ?thesis
            by (cases v) (auto simp: m dict_get_def score_of_def problem_text_of_def
                  jaccard_index_Nil)
        qed
      qed
    qed (use Some in \<open>simp_all add: m dict_get_def score_of_def problem_text_of_def\<close>)
  qed
qed

lemma scan_readable:
  "list_all readable_record ms \<Longrightarrow>
   scan_memories (JStr q) ms acc =
     Inr (acc @ map (\<lambda>m. (m, score_of q m)) (filter (\<lambda>m. 3 / 10 < score_of q m) ms))"
proof (induction ms arbitrary: acc)
  case Nil
  then show ?case by simp
next
  case (Cons m ms)
  then have r: "readable_record m" and rs: "list_all readable_record ms" by simp_all
  show ?case
    unfolding scan_readable_step [OF r] Cons.IH [OF rs] by simp
qed


lemma sort_reverse_desc: "sorted_wrt (\<ge>) (map key (sort_reverse key xs))"
proof -
  have "sorted (map key (sort_key key (rev xs)))" by (rule sorted_sort_key)
  then have "sorted_wrt (\<le>) (map key (sort_key key (rev xs)))" by simp
  then have "sorted_wrt (\<lambda>a b. b \<le> a) (rev (map key (sort_key key (rev xs))))"
    by (simp add: sorted_wrt_rev)
  then show ?thesis by (simp add: sort_reverse_def rev_map)
qed

lemma set_sort_reverse: "set (sort_reverse key xs) = set xs"
  by (simp add: sort_reverse_def)

lemma sort_reverse_stable:
  "filter (\<lambda>x. key x = k) (sort_reverse key xs) = filter (\<lambda>x. key x = k) xs"
  by (simp add: sort_reverse_def rev_filter [symmetric] sort_key_stable)

lemma slice_to_take: "\<exists>k. slice_to limit xs = take k xs"
  by (auto simp: slice_to_def)

lemma slice_to_nat: "slice_to (int n) xs = take n xs"
  by (simp add: slice_to_def)

lemma get_similar_readable:
  assumes "list_all readable_record ms"
  shows "get_similar_problems (JArr ms) (JStr q) limit =
         Inr (map fst (slice_to limit (sort_reverse snd (candidates q ms))))"
proof (cases ms)
  case Nil
  then show ?thesis
    by (simp add: get_similar_problems_def candidates_def sort_reverse_def slice_to_def)
next
  case (Cons m ms')
  then have "truthy (JArr ms)" by simp
  with scan_readable [OF assms, of q "[]"] show ?thesis
    by (simp add: get_similar_problems_def candidates_def)
qed

lemma candidates_snd: "p \<in> set (candidates q ms) \<Longrightarrow> snd p = score_of q (fst p)"
  by (auto simp: candidates_def)

lemma candidates_fst:
  "p \<in> set (candidates q ms) \<Longrightarrow> fst p \<in> set ms \<and> 3 / 10 < score_of q (fst p)"
  by (auto simp: candidates_def)

lemma map_score_fst:
  assumes "set xs \<subseteq> set (candidates q ms)"
  shows "map (score_of q) (map fst xs) = map snd xs"
  using assms candidates_snd by (induction xs) force+

lemma score_positive_text:
  "0 < score_of q m \<Longrightarrow> \<exists>t. problem_text_of m = Some t \<and> score_of q m = jaccard_index q t"
  by (cases "problem_text_of m") (simp_all add: score_of_def)

text \<open>
  C1. On a store of readable records, for every query text \<open>q\<close> and every limit
  \<open>n\<close> (a count), \<^verbatim>\<open>get_similar_problems\<close> returns; it returns at most \<open>n\<close>
  records; every returned record is a stored one whose
  \<^verbatim>\<open>parsed_problem.problem_text\<close> scores strictly above 3/10 against \<open>q\<close>; the
  scores of the returned records are in descending order; and the score that
  \<^verbatim>\<open>_simple_similarity\<close> computes for two texts is the Jaccard index of their sets of
  lowercase whitespace-delimited tokens, 0 when one of the sets is empty.
\<close>

theorem get_similar_problems_limit_threshold_order:
  assumes "list_all readable_record ms"
  shows "\<exists>rs. get_similar_problems (JArr ms) (JStr q) (int n) = Inr rs
            \<and> length rs \<le> n
            \<and> (\<forall>m \<in> set rs. m \<in> set ms
                  \<and> (\<exists>t. problem_text_of m = Some t \<and> simple_similarity (JStr q) (JStr t) = Inr (score_of q m))
                  \<and> 3 / 10 < score_of q m)
            \<and> sorted_wrt (\<ge>) (map (score_of q) rs)
            \<and> (\<forall>a b. simple_similarity (JStr a) (JStr b) = Inr (jaccard_index a b))"
proof -
  let ?xs = "take n (sort_reverse snd (candidates q ms))"
  let ?rs = "map fst ?xs"
  have sub: "set ?xs \<subseteq> set (candidates q ms)"
    using set_take_subset [of n "sort_reverse snd (candidates q ms)"]
    by (simp add: set_sort_reverse)
  have r: "get_similar_problems (JArr ms) (JStr q) (int n) = Inr ?rs"
    by (simp add: get_similar_readable [OF assms] slice_to_nat)
  have len: "length ?rs \<le> n" by simp
  have mem: "m \<in> set ms \<and> 3 / 10 < score_of q m" if "m \<in> set ?rs" for m
    using that sub candidates_fst by fastforce
  have stored: "\<exists>t. problem_text_of m = Some t \<and> simple_similarity (JStr q) (JStr t) = Inr (score_of q m)"
    if "m \<in> set ?rs" for m
  proof -
    from mem [OF that] have "0 < score_of q m" by simp
    from score_positive_text [OF this] show ?thesis
      by (auto simp: simple_similarity_str)
  qed
  have "sorted_wrt (\<ge>) (map snd (sort_reverse snd (candidates q ms)))"
    by (rule sort_reverse_desc)
  then have "sorted_wrt (\<ge>) (take n (map snd (sort_reverse snd (candidates q ms))))"
    by (rule sorted_wrt_take)
  then have srt: "sorted_wrt (\<ge>) (map (score_of q) ?rs)"
    unfolding map_score_fst [OF sub] take_map .
  show ?thesis
    using r len mem stored srt simple_similarity_str by blast
qed

theorem get_similar_problems_limit_threshold_order_witness:
  "list_all readable_record sample_memories
   \<and> get_similar_problems (JArr sample_memories) (JStr ''solve x squared minus 4x plus 4'') (int 2)
       = Inr [sample_record ''id-1'' ''solve x squared minus 4x plus 4'',
              sample_record ''id-4'' ''Solve  X squared minus 4x plus 4'']
   \<and> simple_similarity (JStr ''solve x squared plus 4'') (JStr ''solve x squared minus 4x plus 4'')
       = Inr (5 / 7)"
proof -
  have h: "list_all readable_record sample_memories" by code_simp
  have e: "get_similar_problems (JArr sample_memories) (JStr ''solve x squared minus 4x plus 4'') (int 2)
       = Inr [sample_record ''id-1'' ''solve x squared minus 4x plus 4'',
              sample_record ''id-4'' ''Solve  X squared minus 4x plus 4'']" by code_simp
  have j: "jaccard_index ''solve x squared plus 4'' ''solve x squared minus 4x plus 4'' = 5 / 7"
    by code_simp
  from get_similar_problems_limit_threshold_order [OF h, of "''solve x squared minus 4x plus 4''" 2]
  have "simple_similarity (JStr ''solve x squared plus 4'') (JStr ''solve x squared minus 4x plus 4'')
       = Inr (jaccard_index ''solve x squared plus 4'' ''solve x squared minus 4x plus 4'')"
    by blast
  with h e j show ?thesis by simp
qed

text \<open>
  C3 as stated fails: the first and the fourth sample record both score 1 against the
  query, and with limit 1 the one returned is the first, the one stored earliest.
\<close>

theorem latest_record_does_not_win_tie:
  "get_similar_problems (JArr sample_memories) (JStr ''solve x squared minus 4x plus 4'') 1
     = Inr [sample_record ''id-1'' ''solve x squared minus 4x plus 4'']
   \<and> sample_memories ! 0 = sample_record ''id-1'' ''solve x squared minus 4x plus 4''
   \<and> sample_memories ! 3 = sample_record ''id-4'' ''Solve  X squared minus 4x plus 4''
   \<and> score_of ''solve x squared minus 4x plus 4'' (sample_memories ! 0) = 1
   \<and> score_of ''solve x squared minus 4x plus 4'' (sample_memories ! 3) = 1"
  by code_simp

text \<open>
  C3, as the code has it. Among the records with one and the same score \<open>s\<close>, the
  returned ones are the first of the stored ones, in stored order: the record inserted
  earliest wins a tie, whatever the limit.
\<close>

theorem get_similar_problems_ties_in_insertion_order:
  assumes "list_all readable_record ms"
    and "get_similar_problems (JArr ms) (JStr q) limit = Inr rs"
  shows "prefix (filter (\<lambda>m. score_of q m = s) rs) (filter (\<lambda>m. score_of q m = s) ms)"
proof -
  obtain k where k: "slice_to limit (sort_reverse snd (candidates q ms))
                      = take k (sort_reverse snd (candidates q ms))"
    using slice_to_take by blast
  let ?xs = "take k (sort_reverse snd (candidates q ms))"
  have rs: "rs = map fst ?xs"
    using assms(2) by (simp add: get_similar_readable [OF assms(1)] k)
  have sub: "set ?xs \<subseteq> set (candidates q ms)"
    using set_take_subset [of k "sort_reverse snd (candidates q ms)"]
    by (simp add: set_sort_reverse)
  have "filter (\<lambda>m. score_of q m = s) (map fst xs) = map fst (filter (\<lambda>p. snd p = s) xs)"
    if "set xs \<subseteq> set (candidates q ms)" for xs
    using that candidates_snd by (induction xs) force+
  note conv = this
  have "prefix (filter (\<lambda>p. snd p = s) ?xs) (filter (\<lambda>p. snd p = s) (sort_reverse snd (candidates q ms)))"
    by (rule filter_mono_prefix) (rule take_is_prefix)
  then have "prefix (filter (\<lambda>p. snd p = s) ?xs) (filter (\<lambda>p. snd p = s) (candidates q ms))"
    by (simp add: sort_reverse_stable)
  then have "prefix (map fst (filter (\<lambda>p. snd p = s) ?xs)) (map fst (filter (\<lambda>p. snd p = s) (candidates q ms)))"
    by (rule map_mono_prefix)
  then have "prefix (filter (\<lambda>m. score_of q m = s) rs)
               (filter (\<lambda>m. score_of q m = s) (map fst (candidates q ms)))"
    by (simp add: conv [OF sub] conv [OF subset_refl] rs)
  moreover have "map fst (candidates q ms) = filter (\<lambda>m. 3 / 10 < score_of q m) ms"
    by (simp add: candidates_def comp_def)
  moreover have "prefix (filter (\<lambda>m. score_of q m = s) (filter (\<lambda>m. 3 / 10 < score_of q m) ms))
                  (filter (\<lambda>m. score_of q m = s) ms)"
  proof (cases "3 / 10 < s")
    case True
    then have "filter (\<lambda>m. score_of q m = s) (filter (\<lambda>m. 3 / 10 < score_of q m) ms)
               = filter (\<lambda>m. score_of q m = s) ms"
      by (auto intro: filter_cong)
    then show ?thesis by simp
  next
    case False
    then have "filter (\<lambda>m. score_of q m = s) (filter (\<lambda>m. 3 / 10 < score_of q m) ms) = []"
      by (auto simp: filter_empty_conv)
    then show ?thesis by simp
  qed
  ultimately show ?thesis by simp
qed


theorem get_similar_problems_ties_in_insertion_order_witness:
  "list_all readable_record sample_memories
   \<and> get_similar_problems (JArr sample_memories) (JStr ''solve x squared minus 4x plus 4'') 1
       = Inr [sample_record ''id-1'' ''solve x squared minus 4x plus 4'']
   \<and> prefix (filter (\<lambda>m. score_of ''solve x squared minus 4x plus 4'' m = 1)
                [sample_record ''id-1'' ''solve x squared minus 4x plus 4''])
             (filter (\<lambda>m. score_of ''solve x squared minus 4x plus 4'' m = 1) sample_memories)"
proof -
  have h: "list_all readable_record sample_memories" by code_simp
  have e: "get_similar_problems (JArr sample_memories) (JStr ''solve x squared minus 4x plus 4'') 1
       = Inr [sample_record ''id-1'' ''solve x squared minus 4x plus 4'']" by code_simp
  from get_similar_problems_ties_in_insertion_order [OF h e, of 1] h e show ?thesis by simp
qed

section \<open>Records without a problem text\<close>

lemma scan_skip:
  assumes "lacks_problem_text m"
  shows "scan_memories q (m # rest) acc = scan_memories q rest acc"
proof -
  from assms obtain kvs where m: "m = JObj kvs"
    by (cases m) (auto simp: lacks_problem_text_def)
  show ?thesis
  proof (cases "map_of kvs ''parsed_problem''")
    case None
    then show ?thesis by (simp add: m dict_get_def)
  next
    case (Some parsed)
    show ?thesis
    proof (cases parsed)
      case (JObj p)
      with assms Some have "case map_of p ''problem_text'' of None \<Rightarrow> True | Some v \<Rightarrow> \<not> truthy v"
        by (simp add: lacks_problem_text_def m)
      with Some JObj show ?thesis
        by (auto simp: m dict_get_def split: option.splits)
    qed (use Some in \<open>simp_all add: m dict_get_def\<close>)
  qed
qed

lemma scan_skip_middle:
  assumes "lacks_problem_text m"
  shows "scan_memories q (pre @ m # post) acc = scan_memories q (pre @ post) acc"
proof (induction pre arbitrary: acc)
  case Nil
  show ?case by (simp only: append_Nil scan_skip [OF assms])
next
  case (Cons x pre)
  show ?case
    by (simp add: Cons.IH cong: sum.case_cong if_cong)
qed

lemma scan_all_skipped:
  "list_all lacks_problem_text ms \<Longrightarrow> scan_memories q ms acc = Inr acc"
  by (induction ms) (simp_all add: scan_skip del: scan_memories.simps(2))

lemma scan_cons_cases:
  assumes "scan_memories q (m # rest) acc = Inr sim"
  shows "scan_memories q rest acc = Inr sim
         \<or> (\<not> lacks_problem_text m \<and> (\<exists>s. scan_memories q rest (acc @ [(m, s)]) = Inr sim))"
proof (cases "lacks_problem_text m")
  case True
  with assms show ?thesis by (simp add: scan_skip del: scan_memories.simps(2))
next
  case False
  with assms show ?thesis
    by (auto split: sum.splits if_splits)
qed

lemma scan_members:
  "scan_memories q ms acc = Inr sim \<Longrightarrow>
   \<forall>p \<in> set sim. p \<in> set acc \<or> \<not> lacks_problem_text (fst p)"
proof (induction ms arbitrary: acc)
  case Nil
  then show ?case by auto
next
  case (Cons m ms)
  from scan_cons_cases [OF Cons.prems] show ?case
  proof
    assume "scan_memories q ms acc = Inr sim"
    from Cons.IH [OF this] show ?thesis .
  next
    assume "\<not> lacks_problem_text m \<and> (\<exists>s. scan_memories q ms (acc @ [(m, s)]) = Inr sim)"
    then obtain s where n: "\<not> lacks_problem_text m"
      and s: "scan_memories q ms (acc @ [(m, s)]) = Inr sim" by blast
    from Cons.IH [OF s] n show ?thesis by auto
  qed
qed

lemma slice_to_subset: "set (slice_to limit xs) \<subseteq> set xs"
  using slice_to_take [of limit xs] set_take_subset by metis

text \<open>
  C10. A record that is a dict without a usable problem text (no \<^verbatim>\<open>parsed_problem\<close>,
  one that is not a dict, or one whose \<^verbatim>\<open>problem_text\<close> is absent or empty) leaves the
  call as it is without the record, whatever the query and the limit: it adds neither an
  exception nor a result. A store of such records alone yields the empty list, and no
  record of this kind is ever returned.
\<close>

theorem get_similar_problems_skips_records_without_text:
  "(lacks_problem_text m \<longrightarrow>
      get_similar_problems (JArr (pre @ m # post)) q limit
        = get_similar_problems (JArr (pre @ post)) q limit)
   \<and> (list_all lacks_problem_text ms \<longrightarrow> get_similar_problems (JArr ms) q limit = Inr [])
   \<and> (get_similar_problems (JArr stored) q limit = Inr rs \<longrightarrow>
        list_all (\<lambda>r. \<not> lacks_problem_text r) rs)"
proof (intro conjI impI)
  assume l: "lacks_problem_text m"
  show "get_similar_problems (JArr (pre @ m # post)) q limit
        = get_similar_problems (JArr (pre @ post)) q limit"
  proof (cases "pre @ post = []")
    case True
    then show ?thesis
      by (simp add: get_similar_problems_def scan_skip [OF l] sort_reverse_def slice_to_def
            del: scan_memories.simps(2))
  next
    case False
    then show ?thesis
      by (simp add: get_similar_problems_def scan_skip_middle [OF l])
  qed
next
  assume "list_all lacks_problem_text ms"
  then show "get_similar_problems (JArr ms) q limit = Inr []"
    by (simp add: get_similar_problems_def scan_all_skipped sort_reverse_def slice_to_def)
next
  assume r: "get_similar_problems (JArr stored) q limit = Inr rs"
  show "list_all (\<lambda>r. \<not> lacks_problem_text r) rs"
  proof (cases "stored = []")
    case True
    with r show ?thesis by (simp add: get_similar_problems_def)
  next
    case False
    with r obtain sim where s: "scan_memories q stored [] = Inr sim"
      and rs: "rs = map fst (slice_to limit (sort_reverse snd sim))"
      by (auto simp: get_similar_problems_def split: sum.splits)
    from scan_members [OF s] have "\<forall>p \<in> set sim. \<not> lacks_problem_text (fst p)" by simp
    moreover have "set (slice_to limit (sort_reverse snd sim)) \<subseteq> set sim"
      using slice_to_subset [of limit "sort_reverse snd sim"] by (simp add: set_sort_reverse)
    ultimately show ?thesis
      by (auto simp: rs list_all_iff)
  qed
qed


theorem get_similar_problems_skips_records_without_text_witness:
  "lacks_problem_text empty_text_record
   \<and> get_similar_problems (JArr (sample_memories @ empty_text_record # [no_parsed_record]))
        (JStr ''solve x squared plus 4'') 3
     = get_similar_problems (JArr (sample_memories @ [no_parsed_record]))
        (JStr ''solve x squared plus 4'') 3
   \<and> list_all lacks_problem_text [no_parsed_record, text_parsed_record, empty_text_record]
   \<and> get_similar_problems (JArr [no_parsed_record, text_parsed_record, empty_text_record])
        (JStr ''solve x squared plus 4'') 3 = Inr []
   \<and> get_similar_problems (JArr (text_parsed_record # sample_memories))
        (JStr ''solve x squared plus 4'') 3 = Inr [sample_record ''id-3'' ''solve x squared plus 4'',
              sample_record ''id-1'' ''solve x squared minus 4x plus 4'',
              sample_record ''id-4'' ''Solve  X squared minus 4x plus 4'']
   \<and> list_all (\<lambda>r. \<not> lacks_problem_text r) [sample_record ''id-3'' ''solve x squared plus 4'',
              sample_record ''id-1'' ''solve x squared minus 4x plus 4'',
              sample_record ''id-4'' ''Solve  X squared minus 4x plus 4'']"
proof -
  have a: "lacks_problem_text empty_text_record" by code_simp
  have b: "list_all lacks_problem_text [no_parsed_record, text_parsed_record, empty_text_record]"
    by code_simp
  have c: "get_similar_problems (JArr (text_parsed_record # sample_memories))
        (JStr ''solve x squared plus 4'') 3 = Inr [sample_record ''id-3'' ''solve x squared plus 4'',
              sample_record ''id-1'' ''solve x squared minus 4x plus 4'',
              sample_record ''id-4'' ''Solve  X squared minus 4x plus 4'']"
    by code_simp
  from get_similar_problems_skips_records_without_text
         [of empty_text_record sample_memories "[no_parsed_record]"
             "JStr ''solve x squared plus 4''" 3
             "[no_parsed_record, text_parsed_record, empty_text_record]"
             "text_parsed_record # sample_memories"
             "[sample_record ''id-3'' ''solve x squared plus 4'',
              sample_record ''id-1'' ''solve x squared minus 4x plus 4'',
              sample_record ''id-4'' ''Solve  X squared minus 4x plus 4'']"]
  show ?thesis using a b c by blast
qed


section \<open>Persistence\<close>






text \<open>
  C2, the code at a failing write. With a backing file that cannot be opened for writing,
  \<^verbatim>\<open>store_interaction\<close> appends the record to the in-memory sequence, leaves the file
  as it was, prints its two failure lines and returns the new id: the very value it
  returns when the write succeeds. Nothing the caller receives tells the two apart.
\<close>

theorem store_interaction_returns_id_on_failed_write:
  "store_interaction write_doc (sample_fx ''id-9'' OpenFails) (sample_data ''solve y'') empty_store
     = Inr (''id-9'', [ErrorSaving, FailedToStore],
            \<lparr>memories = JArr [new_memory ''id-9'' ''2025-01-02T09:30:00'' (sample_data ''solve y'')],
             backing = Missing\<rparr>)
   \<and> store_interaction write_doc (sample_fx ''id-9'' WriteOk) (sample_data ''solve y'') empty_store
     = Inr (''id-9'', [Saved 1, StoredMemory ''id-9''],
            \<lparr>memories = JArr [new_memory ''id-9'' ''2025-01-02T09:30:00'' (sample_data ''solve y'')],
             backing = Content (Some (JArr [new_memory ''id-9'' ''2025-01-02T09:30:00'' (sample_data ''solve y'')]))\<rparr>)"
  by (simp add: store_interaction_def save_memories_def sample_fx_def empty_store_def
        write_doc_def Let_def)



text \<open>
  C6. Without a backing file \<^verbatim>\<open>load_memories\<close> returns the empty sequence and prints
  that no file was found; with a backing file that does not parse it returns the empty
  sequence and prints that the file is corrupted. In both cases the caller gets a value,
  not an exception.
\<close>

theorem load_memories_missing_or_corrupted:
  "(backing st = Missing \<longrightarrow> load_memories loads st = (JArr [], [NoMemoryFile]))
   \<and> (backing st = Content t \<and> loads t = None \<longrightarrow>
        load_memories loads st = (JArr [], [CorruptedFile]))"
  by (simp add: load_memories_def)

theorem load_memories_missing_or_corrupted_witness:
  "backing (sample_store\<lparr>backing := Missing\<rparr>) = Missing
   \<and> load_memories read_doc (sample_store\<lparr>backing := Missing\<rparr>) = (JArr [], [NoMemoryFile])
   \<and> backing (sample_store\<lparr>backing := Content None\<rparr>) = Content None
   \<and> read_doc None = None
   \<and> load_memories read_doc (sample_store\<lparr>backing := Content None\<rparr>) = (JArr [], [CorruptedFile])"
  using load_memories_missing_or_corrupted [of "sample_store\<lparr>backing := Missing\<rparr>" read_doc]
        load_memories_missing_or_corrupted [of "sample_store\<lparr>backing := Content None\<rparr>" read_doc None]
  by (simp add: read_doc_def)





text \<open>
  C9 as stated fails: a backing file holding the JSON number 5 parses, and
  \<^verbatim>\<open>load_memories\<close> returns the empty sequence, not the number.
\<close>

theorem load_memories_drops_parsed_number:
  "read_doc (Some (JInt 5)) = Some (JInt 5)
   \<and> load_memories read_doc \<lparr>memories = JArr [], backing = Content (Some (JInt 5))\<rparr>
       = (JArr [], [ErrorLoading])
   \<and> JArr [] \<noteq> JInt 5"
  by (simp add: load_memories_def read_doc_def)

text \<open>
  C9, as the code has it. A backing file that parses to a list, a dict or a string is
  returned unchanged, whatever its elements; a file that parses to a number, a boolean or
  \<^verbatim>\<open>null\<close> yields the empty sequence (its \<^verbatim>\<open>len\<close> raises inside the \<^verbatim>\<open>try\<close>),
  as do a file that does not parse and a file that cannot be read.
\<close>

theorem load_memories_returns_sized_values_unchanged:
  "(backing st = Content t \<and> loads t = Some v
      \<and> ((\<exists>xs. v = JArr xs) \<or> (\<exists>kvs. v = JObj kvs) \<or> (\<exists>s. v = JStr s))
    \<longrightarrow> fst (load_memories loads st) = v)
   \<and> (backing st = Content t \<and> loads t = Some v
      \<and> (v = JNull \<or> (\<exists>b. v = JBool b) \<or> (\<exists>i. v = JInt i) \<or> (\<exists>w. v = JFloat w))
    \<longrightarrow> load_memories loads st = (JArr [], [ErrorLoading]))
   \<and> (backing st = Content t \<and> loads t = None \<longrightarrow> fst (load_memories loads st) = JArr [])
   \<and> (backing st = Unreadable \<longrightarrow> fst (load_memories loads st) = JArr [])"
  by (auto simp: load_memories_def)

theorem load_memories_returns_sized_values_unchanged_witness:
  "backing \<lparr>memories = JArr [], backing = Content (Some (JObj [(''a'', JInt 1)]))\<rparr>
     = Content (Some (JObj [(''a'', JInt 1)]))
   \<and> read_doc (Some (JObj [(''a'', JInt 1)])) = Some (JObj [(''a'', JInt 1)])
   \<and> fst (load_memories read_doc \<lparr>memories = JArr [], backing = Content (Some (JObj [(''a'', JInt 1)]))\<rparr>)
       = JObj [(''a'', JInt 1)]
   \<and> load_memories read_doc \<lparr>memories = JArr [], backing = Content (Some (JBool True))\<rparr>
       = (JArr [], [ErrorLoading])
   \<and> fst (load_memories read_doc \<lparr>memories = JArr [], backing = Content None\<rparr>) = JArr []
   \<and> fst (load_memories read_doc \<lparr>memories = JArr [], backing = Unreadable\<rparr>) = JArr []"
  using load_memories_returns_sized_values_unchanged
          [of "\<lparr>memories = JArr [], backing = Content (Some (JObj [(''a'', JInt 1)]))\<rparr>"
              "Some (JObj [(''a'', JInt 1)])" read_doc "JObj [(''a'', JInt 1)]"]
        load_memories_returns_sized_values_unchanged
          [of "\<lparr>memories = JArr [], backing = Content (Some (JBool True))\<rparr>"
              "Some (JBool True)" read_doc "JBool True"]
        load_memories_returns_sized_values_unchanged
          [of "\<lparr>memories = JArr [], backing = Content None\<rparr>" None read_doc]
        load_memories_returns_sized_values_unchanged
          [of "\<lparr>memories = JArr [], backing = Unreadable\<rparr>" _ read_doc]
  by (auto simp: read_doc_def)

section \<open>The solve button\<close>





















end
